theory Spec2Isabelle
  imports Main "HOL-Library.Sublist"
begin

section \<open>Go values: byte slices, run-time panics, errors\<close>

text \<open>
  A Go byte slice and a Go string are both modelled as \<open>string\<close> (a list of 8-bit
  characters). A Go \<open>error\<close> is modelled by its message; \<open>nil\<close> is \<open>None\<close>.
  A run-time panic (index or slice bounds out of range, integer division by zero)
  is a result of its own, so that every crash of the source is a branch of the model.
\<close>

datatype 'a go = Return 'a | Panic string

type_synonym error = "string option"

definition go_bind :: "'a go \<Rightarrow> ('a \<Rightarrow> 'b go) \<Rightarrow> 'b go" where
  "go_bind m f = (case m of Panic p \<Rightarrow> Panic p | Return x \<Rightarrow> f x)"

text \<open>\<open>xs[i]\<close>: panics when the index is out of range.\<close>

definition go_index :: "'a list \<Rightarrow> nat \<Rightarrow> 'a go" where
  "go_index xs i =
     (if i < length xs then Return (xs ! i)
      else Panic ''runtime error: index out of range'')"

text \<open>
  \<open>xs[lo:hi]\<close>: panics unless \<open>0 \<le> lo \<le> hi \<le> cap\<close>. Every slice expression of the
  source has \<open>hi \<le> len\<close>, so the length stands for the capacity.
\<close>

definition slice :: "'a list \<Rightarrow> int \<Rightarrow> int \<Rightarrow> 'a list go" where
  "slice xs lo hi =
     (if 0 \<le> lo \<and> lo \<le> hi \<and> hi \<le> int (length xs)
      then Return (take (nat (hi - lo)) (drop (nat lo) xs))
      else Panic ''runtime error: slice bounds out of range'')"

text \<open>\<open>bytes.Index\<close>: index of the first occurrence of \<open>sep\<close>, or \<open>-1\<close>.\<close>

fun bytes_Index :: "string \<Rightarrow> string \<Rightarrow> int" where
  "bytes_Index [] sep = (if sep = [] then 0 else -1)"
| "bytes_Index (x # xs) sep =
     (if prefix sep (x # xs) then 0
      else (let i = bytes_Index xs sep in if i < 0 then -1 else i + 1))"

definition HasPrefix :: "string \<Rightarrow> string \<Rightarrow> bool" where
  "HasPrefix s p = prefix p s"

definition HasSuffix :: "string \<Rightarrow> string \<Rightarrow> bool" where
  "HasSuffix s p = suffix p s"

section \<open>Record tokenizer\<close>

definition ROUTE_SEP :: string where
  "ROUTE_SEP = ''\<newline>\<newline>''"

definition ROUTE_HEADER :: string where
  "ROUTE_HEADER = ''Pro''"

text \<open>
  \<open>routeSplitFunc(data, atEOF)\<close> returns \<open>(advance, token, err)\<close>. The token is
  \<open>None\<close> for Go's \<open>nil\<close> and \<open>Some t\<close> for a slice of \<open>data\<close> (also an empty one).
\<close>

definition routeSplitFunc :: "string \<Rightarrow> bool \<Rightarrow> (int \<times> string option \<times> error) go" where
  "routeSplitFunc data atEOF =
     (if length data = 0 \<and> atEOF then Return (0, None, None)
      else
        let i = bytes_Index data ROUTE_SEP in
        if i = -1 then
          (if \<not> atEOF then Return (0, None, None)
           else if HasSuffix data ''\<newline>'' then
             go_bind (slice data 0 (int (length data) - 1))
               (\<lambda>tok. Return (int (length data), Some tok, None))
           else Return (0, None,
                  Some ''Improperly formatted file: it must end with an empty line''))
        else
          let to = i;
              advance = i + int (length ROUTE_SEP);
              from = (if HasPrefix data ROUTE_HEADER
                      then bytes_Index data ''\<newline>'' + 1 else 0)
          in go_bind (slice data from to) (\<lambda>tok. Return (advance, Some tok, None)))"

subsection \<open>The scanner that drives the split function\<close>

text \<open>
  \<open>main\<close> hands \<open>routeSplitFunc\<close> to a \<open>bufio.Scanner\<close> on standard input. The
  scanner is library code; its loop is modelled as the library documents it. The reader
  delivers the input as a list of chunks (one per successful read) and then reports
  end-of-input. The split function is called on the unconsumed bytes whenever there are
  any, or once end-of-input is known; a \<open>nil\<close> token with no error makes the scanner read
  more, or stop when the input is exhausted. The scanner's limit on the size of a
  token is not modelled.
\<close>

record scanner =
  buf :: string
  src :: "string list"
  eof :: bool

datatype scan = Token string scanner | Stop error | ScanPanic string

definition new_Scanner :: "string list \<Rightarrow> scanner" where
  "new_Scanner chunks = \<lparr>buf = [], src = chunks, eof = False\<rparr>"

definition fill :: "scanner \<Rightarrow> scanner" where
  "fill s = (case src s of [] \<Rightarrow> s\<lparr>eof := True\<rparr>
             | c # cs \<Rightarrow> s\<lparr>buf := buf s @ c, src := cs\<rparr>)"

function Scan :: "scanner \<Rightarrow> scan" where
  "Scan s =
     (if buf s \<noteq> [] \<or> eof s then
        (case routeSplitFunc (buf s) (eof s) of
           Panic p \<Rightarrow> ScanPanic p
         | Return (advance, token, err) \<Rightarrow>
             (case err of
                Some e \<Rightarrow> Stop (Some e)
              | None \<Rightarrow>
                  if advance < 0 then
                    Stop (Some ''bufio.Scanner: SplitFunc returns negative advance count'')
                  else if advance > int (length (buf s)) then
                    Stop (Some ''bufio.Scanner: SplitFunc returns advance count beyond input'')
                  else
                    let s' = s\<lparr>buf := drop (nat advance) (buf s)\<rparr> in
                    (case token of
                       Some t \<Rightarrow> Token t s'
                     | None \<Rightarrow> if eof s then Stop None else Scan (fill s'))))
      else Scan (fill s))"
  by pat_completeness auto
termination
  by (relation "measure (\<lambda>s. if eof s then 0 else Suc (length (src s)))")
     (auto simp: fill_def split: list.splits)

declare Scan.simps [simp del]

text \<open>
  Every token the split function returns consumes at least one byte, so the loop
  \<open>for routeScanner.Scan() { ... }\<close> of \<open>main\<close> ends: the bytes still to be scanned
  decrease with each token.
\<close>

definition remaining :: "scanner \<Rightarrow> nat" where
  "remaining s = length (buf s) + sum_list (map length (src s))"

lemma bytes_Index_ge: "- 1 \<le> bytes_Index xs sep"
  by (induction xs) (auto simp: Let_def)

lemma length_ROUTE_SEP: "length ROUTE_SEP = 2"
  by (simp add: ROUTE_SEP_def)

lemma routeSplitFunc_token_advance:
  "routeSplitFunc data atEOF = Return (advance, Some t, None) \<Longrightarrow> 0 < advance"
  using bytes_Index_ge [of data ROUTE_SEP]
  by (auto simp: routeSplitFunc_def Let_def go_bind_def HasSuffix_def suffix_def slice_def
      length_ROUTE_SEP split: if_splits go.splits)

lemma remaining_fill: "remaining (fill s) = remaining s"
  by (simp add: remaining_def fill_def split: list.splits)

lemma Scan_Token_remaining: "Scan s = Token t s' \<Longrightarrow> remaining s' < remaining s"
proof (induction s arbitrary: t s' rule: Scan.induct)
  case (1 s)
  show ?case
  proof (cases "buf s \<noteq> [] \<or> eof s")
    case False
    then have "Scan s = Scan (fill s)" by (subst Scan.simps) simp
    with 1(2) [OF False] 1(3) show ?thesis by (simp add: remaining_fill)
  next
    case True
    show ?thesis
    proof (cases "routeSplitFunc (buf s) (eof s)")
      case (Panic p)
      with True 1(3) show ?thesis by (subst (asm) Scan.simps) simp
    next
      case (Return r)
      obtain advance token err where r: "r = (advance, token, err)" by (cases r)
      show ?thesis
      proof (cases token)
        case (Some tk)
        from 1(3) True Return r Some
        have ok: "err = None" "0 \<le> advance" "advance \<le> int (length (buf s))"
          and s': "s' = s\<lparr>buf := drop (nat advance) (buf s)\<rparr>"
          by (subst (asm) Scan.simps, simp split: option.splits if_splits)+
        from Return r Some ok have "0 < advance"
          using routeSplitFunc_token_advance by simp
        with ok s' show ?thesis by (auto simp: remaining_def)
      next
        case None
        show ?thesis
        proof (cases "err = None \<and> 0 \<le> advance \<and> advance \<le> int (length (buf s)) \<and> \<not> eof s")
          case False
          with 1(3) True Return r None show ?thesis
            by (subst (asm) Scan.simps) (auto split: option.splits if_splits)
        next
          case c: True
          let ?s = "s\<lparr>buf := drop (nat advance) (buf s)\<rparr>"
          from c True Return r None have eq: "Scan s = Scan (fill ?s)"
            by (subst Scan.simps) (simp add: Let_def)
          from eq 1(3) have tok: "Scan (fill ?s) = Token t s'" by simp
          from c have "err = None" "\<not> advance < 0" "\<not> int (length (buf s)) < advance"
            "\<not> eof s" by simp_all
          then have "remaining s' < remaining (fill ?s)"
            by (rule 1(1) [OF True Return r [symmetric] refl _ _ _ refl None _ tok])
          also have "remaining (fill ?s) \<le> remaining s"
            by (simp only: remaining_fill) (simp add: remaining_def)
          finally show ?thesis .
        qed
      qed
    qed
  qed
qed

text \<open>
  The values of \<open>routeScanner.Bytes()\<close> over the iterations of the loop, in order, and
  the scanner's error when the loop ends.
\<close>

function Scan_tokens :: "scanner \<Rightarrow> (string list \<times> error) go" where
  "Scan_tokens s =
     (case Scan s of
        ScanPanic p \<Rightarrow> Panic p
      | Stop e \<Rightarrow> Return ([], e)
      | Token t s' \<Rightarrow>
          go_bind (Scan_tokens s') (\<lambda>(ts, e). Return (t # ts, e)))"
  by pat_completeness auto
termination
proof (relation "measure remaining")
  show "wf (measure remaining)" by simp
next
  fix s t s'
  assume "Scan s = Token t s'"
  then show "(s', s) \<in> measure remaining"
    by (simp add: Scan_Token_remaining)
qed

declare Scan_tokens.simps [simp del]

section \<open>Library functions outside the repository\<close>

text \<open>
  The source calls the Go standard library. The functions whose behaviour decides a
  claim are modelled below as the library documents them (\<open>bytes.SplitN\<close>, the three
  regular expressions, \<open>net.SplitHostPort\<close>, \<open>strconv.Atoi\<close>, \<open>time.ParseDuration\<close>).
  The others are parameters of the model, collected in the record \<open>stdlib\<close>: parsing
  an IP literal, parsing a timestamp against a layout, quoting a string for an error
  message, the floating-point product inside \<open>time.ParseDuration\<close> and the JSON codec
  for strings. Every theorem holds for every value of these parameters.
\<close>

text \<open>A \<open>net.IP\<close> is a slice of bytes; \<open>[]\<close> stands for \<open>nil\<close>.\<close>

type_synonym IP = "nat list"

text \<open>
  A \<open>time.Duration\<close> is a signed 64-bit count of nanoseconds: an \<open>int\<close>, wrapped by
  \<open>int64\<close> where the source's arithmetic can overflow.
\<close>

type_synonym Duration = int

definition int64 :: "int \<Rightarrow> int" where
  "int64 x = (x + 2 ^ 63) mod 2 ^ 64 - 2 ^ 63"

text \<open>A \<open>time.Time\<close> in UTC, by its calendar fields.\<close>

record Time =
  year :: int
  month :: int
  day :: int
  hour :: int
  minute :: int
  second :: int
  nanosecond :: int

record stdlib =
  net_ParseIP :: "string \<Rightarrow> IP"
  time_Parse :: "string \<Rightarrow> string \<Rightarrow> Time \<times> error"
  strconv_Quote :: "string \<Rightarrow> string"
  float_frac :: "nat \<Rightarrow> nat \<Rightarrow> nat \<Rightarrow> nat"
  json_Marshal :: "string \<Rightarrow> string \<times> error"
  json_Unmarshal :: "string \<Rightarrow> string \<Rightarrow> string \<times> error"

text \<open>
  \<open>net_ParseIP s\<close> is \<open>net.ParseIP(s)\<close> (\<open>[]\<close> for \<open>nil\<close>);
  \<open>time_Parse layout value\<close> is \<open>time.Parse\<close>;
  \<open>strconv_Quote\<close> is \<open>strconv.Quote\<close>;
  \<open>float_frac f k unit\<close> is \<open>uint64(float64(f) * (float64(unit) / scale))\<close> for
  \<open>scale\<close> the float \<open>10 ^ k\<close>;
  \<open>json_Marshal s\<close> is \<open>json.Marshal(s)\<close> for a string \<open>s\<close>;
  \<open>json_Unmarshal data dest\<close> is \<open>json.Unmarshal(data, &dest)\<close> for a string
  variable holding \<open>dest\<close>, returning its new value and the error.
\<close>

subsection \<open>Go maps\<close>

text \<open>Reading a Go map at a missing key gives the zero value of the value type.\<close>

definition go_map_get :: "('k \<rightharpoonup> 'v) \<Rightarrow> 'v \<Rightarrow> 'k \<Rightarrow> 'v" where
  "go_map_get m zero k = (case m k of Some v \<Rightarrow> v | None \<Rightarrow> zero)"

subsection \<open>\<open>bytes.SplitN\<close>, for a non-empty separator\<close>

fun SplitN :: "string \<Rightarrow> string \<Rightarrow> nat \<Rightarrow> string list" where
  "SplitN s sep 0 = []"
| "SplitN s sep (Suc 0) = [s]"
| "SplitN s sep (Suc (Suc n)) =
     (let i = bytes_Index s sep in
      if i < 0 then [s]
      else take (nat i) s # SplitN (drop (nat i + length sep) s) sep (Suc n))"

subsection \<open>Regular expressions\<close>

text \<open>
  The three patterns of the source use literals, character classes, \<open>+\<close> on a
  character class, alternation and capturing groups, and each is anchored at both ends.
  \<open>matches r s\<close> lists the ways \<open>r\<close> matches a prefix of \<open>s\<close>, as the captured groups
  and the unmatched rest, in the order of preference of Go's \<open>regexp\<close> (leftmost
  alternative first, \<open>+\<close> greedy). \<open>FindSubmatch\<close> on an anchored pattern returns the
  first such match that reaches the end of the text: the whole match followed by the
  groups, or \<open>[]\<close> for \<open>nil\<close>.
\<close>

datatype re = Lit string | Cls "char \<Rightarrow> bool" | Plus "char \<Rightarrow> bool"
  | Seq re re | Alt re re | Grp re

fun matches :: "re \<Rightarrow> string \<Rightarrow> (string list \<times> string) list" where
  "matches (Lit l) s = (if prefix l s then [([], drop (length l) s)] else [])"
| "matches (Cls c) s = (case s of [] \<Rightarrow> [] | x # xs \<Rightarrow> if c x then [([], xs)] else [])"
| "matches (Plus c) s =
     map (\<lambda>n. ([], drop n s)) (rev [1 ..< Suc (length (takeWhile c s))])"
| "matches (Seq a b) s =
     concat (map (\<lambda>(ca, sa). map (\<lambda>(cb, sb). (ca @ cb, sb)) (matches b sa)) (matches a s))"
| "matches (Alt a b) s = matches a s @ matches b s"
| "matches (Grp a) s =
     map (\<lambda>(ca, sa). (take (length s - length sa) s # ca, sa)) (matches a s)"

fun seqs :: "re list \<Rightarrow> re" where
  "seqs [] = Lit []"
| "seqs [r] = r"
| "seqs (r # rs) = Seq r (seqs rs)"

definition FindSubmatch :: "re \<Rightarrow> string \<Rightarrow> string list" where
  "FindSubmatch r b =
     (case filter (\<lambda>(caps, rest). rest = []) (matches r b) of
        [] \<Rightarrow> []
      | (caps, rest) # others \<Rightarrow> b # caps)"

text \<open>A replacement template: literal text and references \<open>${n}\<close> to groups.\<close>

datatype tpart = TLit string | TGrp nat

definition expand :: "tpart list \<Rightarrow> string list \<Rightarrow> string" where
  "expand template m =
     concat (map (\<lambda>p. case p of TLit l \<Rightarrow> l
                          | TGrp n \<Rightarrow> if n < length m then m ! n else []) template)"

text \<open>
  \<open>ReplaceAll\<close> for a pattern anchored at both ends: the pattern matches the whole
  text or nothing, so the result is the expanded template or the text unchanged.
\<close>

definition ReplaceAll :: "re \<Rightarrow> string \<Rightarrow> tpart list \<Rightarrow> string" where
  "ReplaceAll r b repl =
     (case FindSubmatch r b of [] \<Rightarrow> b | w # caps \<Rightarrow> expand repl (w # caps))"

text \<open>The classes \<open>\s\<close>, \<open>\d\<close>, \<open>[\-\:0-9\.]\<close> and \<open>[^,]\<close>.\<close>

definition space_class :: "char \<Rightarrow> bool" where
  "space_class c = (c \<in> {CHR 0x09, CHR 0x0A, CHR 0x0C, CHR 0x0D, CHR 0x20})"

definition digit_class :: "char \<Rightarrow> bool" where
  "digit_class c = (c \<in> set ''0123456789'')"

definition addr_class :: "char \<Rightarrow> bool" where
  "addr_class c = (c = CHR ''-'' \<or> c = CHR '':'' \<or> digit_class c \<or> c = CHR ''.'')"

definition not_comma :: "char \<Rightarrow> bool" where
  "not_comma c = (c \<noteq> CHR '','')"

subsection \<open>\<open>net.SplitHostPort\<close>\<close>

definition IndexByte :: "string \<Rightarrow> char \<Rightarrow> int" where
  "IndexByte s c = bytes_Index s [c]"

definition LastIndexByte :: "string \<Rightarrow> char \<Rightarrow> int" where
  "LastIndexByte s c =
     (let i = IndexByte (rev s) c in if i < 0 then -1 else int (length s) - 1 - i)"

definition addrErr :: "string \<Rightarrow> string \<Rightarrow> string \<times> string \<times> error" where
  "addrErr addr why = ([], [], Some (''address '' @ addr @ '': '' @ why))"

definition SplitHostPort :: "string \<Rightarrow> string \<times> string \<times> error" where
  "SplitHostPort hostport =
     (let missingPort = ''missing port in address'';
          tooManyColons = ''too many colons in address'';
          i = LastIndexByte hostport (CHR '':'');
          finish = (\<lambda>host j k.
            if IndexByte (drop j hostport) (CHR ''['') \<ge> 0
              then addrErr hostport
                     (''unexpected '' @ [CHR 0x27] @ ''['' @ [CHR 0x27] @ '' in address'')
            else if IndexByte (drop k hostport) (CHR '']'') \<ge> 0
              then addrErr hostport
                     (''unexpected '' @ [CHR 0x27] @ '']'' @ [CHR 0x27] @ '' in address'')
            else (host, drop (nat i + 1) hostport, None))
      in
      if i < 0 then addrErr hostport missingPort
      else if hd hostport = CHR ''['' then
        (let end = IndexByte hostport (CHR '']'') in
         if end < 0 then
           addrErr hostport (''missing '' @ [CHR 0x27] @ '']'' @ [CHR 0x27] @ '' in address'')
         else if end + 1 = int (length hostport) then addrErr hostport missingPort
         else if end + 1 = i then
           finish (take (nat end - 1) (drop 1 hostport)) 1 (nat end + 1)
         else if hostport ! nat (end + 1) = CHR '':'' then addrErr hostport tooManyColons
         else addrErr hostport missingPort)
      else
        (let host = take (nat i) hostport in
         if IndexByte host (CHR '':'') \<ge> 0 then addrErr hostport tooManyColons
         else finish host 0 0))"

subsection \<open>\<open>strconv.Atoi\<close>, for a 64-bit \<open>int\<close>\<close>

definition digit_val :: "char \<Rightarrow> int" where
  "digit_val c = of_char c - 48"

datatype num_error = ErrSyntax | ErrRange

fun ParseUint_digits :: "int \<Rightarrow> string \<Rightarrow> int + num_error" where
  "ParseUint_digits n [] = Inl n"
| "ParseUint_digits n (c # cs) =
     (if \<not> digit_class c then Inr ErrSyntax
      else if n \<ge> (2 ^ 64 - 1) div 10 + 1 then Inr ErrRange
      else if n * 10 + digit_val c > 2 ^ 64 - 1 then Inr ErrRange
      else ParseUint_digits (n * 10 + digit_val c) cs)"

definition ParseUint :: "string \<Rightarrow> int + num_error" where
  "ParseUint s = (if s = [] then Inr ErrSyntax else ParseUint_digits 0 s)"

definition ParseInt :: "string \<Rightarrow> int \<times> num_error option" where
  "ParseInt s =
     (if s = [] then (0, Some ErrSyntax)
      else
        let neg = (hd s = CHR ''-'');
            s1 = (if hd s = CHR ''+'' \<or> hd s = CHR ''-'' then tl s else s);
            cutoff = (2 :: int) ^ 63
        in case ParseUint s1 of
             Inr ErrSyntax \<Rightarrow> (0, Some ErrSyntax)
           | Inr ErrRange \<Rightarrow>
               (if neg then - cutoff else cutoff - 1, Some ErrRange)
           | Inl un \<Rightarrow>
               if \<not> neg \<and> un \<ge> cutoff then (cutoff - 1, Some ErrRange)
               else if neg \<and> un > cutoff then (- cutoff, Some ErrRange)
               else (if neg then - un else un, None))"

text \<open>The message of a \<open>*strconv.NumError\<close> raised by \<open>Atoi\<close> on the text \<open>s\<close>.\<close>

definition NumError :: "stdlib \<Rightarrow> string \<Rightarrow> num_error \<Rightarrow> string" where
  "NumError L s e =
     ''strconv.Atoi: parsing '' @ strconv_Quote L s @ '': ''
       @ (case e of ErrSyntax \<Rightarrow> ''invalid syntax'' | ErrRange \<Rightarrow> ''value out of range'')"

definition Atoi :: "stdlib \<Rightarrow> string \<Rightarrow> int \<times> error" where
  "Atoi L s =
     (case ParseInt s of
        (i, None) \<Rightarrow> (i, None)
      | (i, Some e) \<Rightarrow> (i, Some (NumError L s e)))"

subsection \<open>\<open>time.ParseDuration\<close>\<close>

text \<open>
  \<open>quote\<close> is the quoting function of package \<open>time\<close>: bytes outside printable ASCII
  are written as \<open>\xNN\<close>, the double quote and the backslash are escaped.
\<close>

definition quote_byte :: "char \<Rightarrow> string" where
  "quote_byte c =
     (let n = (of_char c :: nat) in
      if n \<ge> 128 \<or> n < 32 then
        [CHR 0x5C, CHR ''x'', ''0123456789abcdef'' ! (n div 16), ''0123456789abcdef'' ! (n mod 16)]
      else if c = CHR 0x22 \<or> c = CHR 0x5C then [CHR 0x5C, c]
      else [c])"

definition quote :: "string \<Rightarrow> string" where
  "quote s = [CHR 0x22] @ concat (map quote_byte s) @ [CHR 0x22]"

text \<open>The units, in nanoseconds; the two spellings of the micro sign are UTF-8.\<close>

definition unitMap :: "(string \<times> int) list" where
  "unitMap =
     [(''ns'', 1),
      (''us'', 1000),
      ([CHR 0xC2, CHR 0xB5, CHR ''s''], 1000),
      ([CHR 0xCE, CHR 0xBC, CHR ''s''], 1000),
      (''ms'', 1000000),
      (''s'', 1000000000),
      (''m'', 60 * 1000000000),
      (''h'', 3600 * 1000000000)]"

fun leadingInt :: "int \<Rightarrow> string \<Rightarrow> (int \<times> string) option" where
  "leadingInt x [] = Some (x, [])"
| "leadingInt x (c # cs) =
     (if \<not> digit_class c then Some (x, c # cs)
      else if x > 2 ^ 63 div 10 then None
      else if x * 10 + digit_val c > 2 ^ 63 then None
      else leadingInt (x * 10 + digit_val c) cs)"

fun leadingFraction :: "int \<Rightarrow> nat \<Rightarrow> bool \<Rightarrow> string \<Rightarrow> int \<times> nat \<times> string" where
  "leadingFraction x k overflow [] = (x, k, [])"
| "leadingFraction x k overflow (c # cs) =
     (if \<not> digit_class c then (x, k, c # cs)
      else if overflow then leadingFraction x k overflow cs
      else if x > (2 ^ 63 - 1) div 10 then leadingFraction x k True cs
      else if x * 10 + digit_val c > 2 ^ 63 then leadingFraction x k True cs
      else leadingFraction (x * 10 + digit_val c) (Suc k) overflow cs)"

text \<open>
  One term \<open>[0-9]*(\.[0-9]*)?[a-z]+\<close> of a duration: the body of the loop of
  \<open>time.ParseDuration\<close>. It returns the term's value in nanoseconds and the rest of
  the text, or the error message.
\<close>

definition unit_char :: "char \<Rightarrow> bool" where
  "unit_char c = (\<not> (c = CHR ''.'' \<or> digit_class c))"

definition duration_term :: "stdlib \<Rightarrow> string \<Rightarrow> string \<Rightarrow> string + (int \<times> string)" where
  "duration_term L orig s =
     (let invalid = Inl (''time: invalid duration '' @ quote orig) in
      if \<not> (hd s = CHR ''.'' \<or> digit_class (hd s)) then invalid
      else case leadingInt 0 s of
        None \<Rightarrow> invalid
      | Some (v, s1) \<Rightarrow>
          let pre = (length s \<noteq> length s1);
              dot = (s1 \<noteq> [] \<and> hd s1 = CHR ''.'');
              (f, k, s2) = (if dot then leadingFraction 0 0 False (tl s1) else (0, 0, s1));
              post = (dot \<and> length (tl s1) \<noteq> length s2)
          in
          if \<not> pre \<and> \<not> post then invalid
          else
            let u = takeWhile unit_char s2;
                s3 = dropWhile unit_char s2
            in
            if u = [] then Inl (''time: missing unit in duration '' @ quote orig)
            else case map_of unitMap u of
              None \<Rightarrow> Inl (''time: unknown unit '' @ quote u @ '' in duration '' @ quote orig)
            | Some unit \<Rightarrow>
                if v > 2 ^ 63 div unit then invalid
                else
                  let v1 = v * unit;
                      v2 = (if f > 0 then v1 + int (float_frac L (nat f) k (nat unit)) else v1)
                  in if f > 0 \<and> v2 > 2 ^ 63 then invalid else Inr (v2, s3))"

lemma leadingInt_length: "leadingInt x s = Some (v, r) \<Longrightarrow> length r \<le> length s"
  by (induction x s rule: leadingInt.induct) (auto split: if_splits)

lemma leadingFraction_length: "leadingFraction x k b s = (f, k', r) \<Longrightarrow> length r \<le> length s"
  by (induction x k b s rule: leadingFraction.induct) (auto split: if_splits)

lemma dropWhile_shorter: "takeWhile P xs \<noteq> [] \<Longrightarrow> length (dropWhile P xs) < length xs"
  by (cases xs) (auto simp: le_imp_less_Suc length_dropWhile_le split: if_splits)

lemma duration_term_shorter:
  assumes "duration_term L orig s = Inr (v, r)"
  shows "length r < length s"
proof -
  from assms obtain v0 s1 where li: "leadingInt 0 s = Some (v0, s1)"
    by (auto simp: duration_term_def Let_def split: if_splits option.splits)
  define dot where "dot = (s1 \<noteq> [] \<and> hd s1 = CHR ''.'')"
  obtain f k s2 where lf:
    "(if dot then leadingFraction 0 0 False (tl s1) else (0, 0, s1)) = (f, k, s2)"
    by (metis prod_cases3)
  have s2: "length s2 \<le> length s1"
  proof (cases dot)
    case True
    with lf have "length s2 \<le> length (tl s1)" by (auto dest: leadingFraction_length)
    then show ?thesis by simp
  next
    case False with lf show ?thesis by simp
  qed
  from assms li lf have "takeWhile unit_char s2 \<noteq> []" and "r = dropWhile unit_char s2"
    by (auto simp: duration_term_def Let_def dot_def split: if_splits option.splits)
  then have "length r < length s2" by (simp add: dropWhile_shorter)
  with s2 leadingInt_length [OF li] show ?thesis by simp
qed

function duration_terms :: "stdlib \<Rightarrow> string \<Rightarrow> int \<Rightarrow> string \<Rightarrow> string + int" where
  "duration_terms L orig d s =
     (if s = [] then Inr d
      else case duration_term L orig s of
        Inl e \<Rightarrow> Inl e
      | Inr (v, s') \<Rightarrow>
          if d + v > 2 ^ 63 then Inl (''time: invalid duration '' @ quote orig)
          else duration_terms L orig (d + v) s')"
  by pat_completeness auto
termination
  by (relation "measure (\<lambda>(L, orig, d, s). length s)") (auto dest: duration_term_shorter)

declare duration_terms.simps [simp del]

definition ParseDuration :: "stdlib \<Rightarrow> string \<Rightarrow> Duration \<times> error" where
  "ParseDuration L s =
     (let orig = s;
          neg = (s \<noteq> [] \<and> hd s = CHR ''-'');
          s1 = (if s \<noteq> [] \<and> (hd s = CHR ''-'' \<or> hd s = CHR ''+'') then tl s else s)
      in
      if s1 = ''0'' then (0, None)
      else if s1 = [] then (0, Some (''time: invalid duration '' @ quote orig))
      else case duration_terms L orig 0 s1 of
        Inl e \<Rightarrow> (0, Some e)
      | Inr d \<Rightarrow>
          if neg then (int64 (- d), None)
          else if d > 2 ^ 63 - 1 then (0, Some (''time: invalid duration '' @ quote orig))
          else (d, None))"

section \<open>Protocol enumeration\<close>

type_synonym NATProto = nat

definition UDP_NAT :: NATProto where "UDP_NAT = 0"
definition TCP_NAT :: NATProto where "TCP_NAT = 1"
definition STATIC_NAT :: NATProto where "STATIC_NAT = 2"
definition ICMP_NAT :: NATProto where "ICMP_NAT = 3"

definition NAT_TRANSLATION :: "(char \<times> NATProto) list" where
  "NAT_TRANSLATION =
     [(CHR ''u'', UDP_NAT), (CHR ''t'', TCP_NAT), (CHR ''-'', STATIC_NAT), (CHR ''i'', ICMP_NAT)]"

definition NAT_NAMES :: "(NATProto \<times> string) list" where
  "NAT_NAMES =
     [(UDP_NAT, ''udp''), (TCP_NAT, ''tcp''), (STATIC_NAT, ''static''), (ICMP_NAT, ''icmp'')]"

definition reverse_entry ::
  "NATProto \<times> string \<Rightarrow> (string \<rightharpoonup> NATProto) \<Rightarrow> (string \<rightharpoonup> NATProto)" where
  "reverse_entry e reversed = (case e of (key, val) \<Rightarrow> reversed(val \<mapsto> key))"

definition reverseNATNames :: "(NATProto \<times> string) list \<Rightarrow> (string \<rightharpoonup> NATProto)" where
  "reverseNATNames names = fold reverse_entry names Map.empty"

definition NAT_REVERSE_NAMES :: "string \<rightharpoonup> NATProto" where
  "NAT_REVERSE_NAMES = reverseNATNames NAT_NAMES"

definition MarshalJSON :: "stdlib \<Rightarrow> NATProto \<Rightarrow> string \<times> error" where
  "MarshalJSON L nat' = json_Marshal L (go_map_get (map_of NAT_NAMES) [] nat')"

definition UnmarshalJSON :: "stdlib \<Rightarrow> string \<Rightarrow> NATProto \<times> error" where
  "UnmarshalJSON L data =
     (let (dest, err) = json_Unmarshal L data [] in
      (go_map_get NAT_REVERSE_NAMES 0 dest, err))"

section \<open>Record parser\<close>

definition DATE_FORMAT :: string where
  "DATE_FORMAT = ''01/02/06 15:04:05''"

record NAT =
  Proto :: NATProto
  InsideGlobal :: IP
  InsideGlobalPort :: int
  InsideLocal :: IP
  InsideLocalPort :: int
  OutsideLocal :: IP
  OutsideLocalPort :: int
  OutsideGlobal :: IP
  OutsideGlobalPort :: int
  Created :: Time
  Used :: Time
  Timeout :: Duration

definition zero_Time :: Time where
  "zero_Time = \<lparr>year = 1, month = 1, day = 1, hour = 0, minute = 0, second = 0, nanosecond = 0\<rparr>"

definition new_NAT :: NAT where
  "new_NAT = \<lparr>Proto = 0,
     InsideGlobal = [], InsideGlobalPort = 0, InsideLocal = [], InsideLocalPort = 0,
     OutsideLocal = [], OutsideLocalPort = 0, OutsideGlobal = [], OutsideGlobalPort = 0,
     Created = zero_Time, Used = zero_Time, Timeout = 0\<rparr>"

definition ROUTE_REGEXP :: re where
  "ROUTE_REGEXP = seqs
     [Grp (Alt (Lit ''---'') (Alt (Lit ''tcp'') (Alt (Lit ''udp'') (Lit ''icmp'')))),
      Plus space_class, Grp (Plus addr_class),
      Plus space_class, Grp (Plus addr_class),
      Plus space_class, Grp (Plus addr_class),
      Plus space_class, Grp (Plus addr_class)]"

definition TIME_REGEXP :: re where
  "TIME_REGEXP = seqs
     [Plus space_class, Lit ''create:'', Plus space_class, Grp (Plus not_comma), Lit '','',
      Plus space_class, Lit ''use:'', Plus space_class, Grp (Plus not_comma), Lit '','',
      Plus space_class, Lit ''timeout:'', Plus space_class, Grp (Plus not_comma)]"

definition DURATION_REGEXP :: re where
  "DURATION_REGEXP = seqs
     [Grp (Seq (Cls digit_class) (Cls digit_class)), Lit '':'',
      Grp (Seq (Cls digit_class) (Cls digit_class)), Lit '':'',
      Grp (Seq (Cls digit_class) (Cls digit_class))]"

definition DURATION_REPLACE :: "tpart list" where
  "DURATION_REPLACE = [TGrp 1, TLit ''h'', TGrp 2, TLit ''m'', TGrp 3, TLit ''s'']"

definition parseIpPort :: "stdlib \<Rightarrow> string \<Rightarrow> string \<Rightarrow> IP \<times> int \<times> error" where
  "parseIpPort L data name =
     (case SplitHostPort data of
        (host, port, Some e) \<Rightarrow>
          ([], 0, Some (''Could not parse '' @ name @ '' address: '' @ e))
      | (host, port, None) \<Rightarrow>
          (let hostIp = net_ParseIP L host in
           case Atoi L port of
             (hostPort, Some e) \<Rightarrow>
               (hostIp, 0, Some (''Could not parse '' @ name @ '' port: '' @ e))
           | (hostPort, None) \<Rightarrow> (hostIp, hostPort, None)))"

text \<open>Lines 141-166: the four address fields.\<close>

definition Parse_addresses :: "stdlib \<Rightarrow> NAT \<Rightarrow> string list \<Rightarrow> (NAT \<times> error) go" where
  "Parse_addresses L nat' ips =
     (if Proto nat' = STATIC_NAT then
        go_bind (go_index ips 2) (\<lambda>f1.
        go_bind (go_index ips 3) (\<lambda>f2.
        go_bind (go_index ips 4) (\<lambda>f3.
        go_bind (go_index ips 5) (\<lambda>f4.
          Return (nat'\<lparr>InsideGlobal := net_ParseIP L f1,
                         InsideLocal := net_ParseIP L f2,
                         OutsideLocal := net_ParseIP L f3,
                         OutsideGlobal := net_ParseIP L f4\<rparr>, None)))))
      else
        go_bind (go_index ips 2) (\<lambda>f1.
        case parseIpPort L f1 ''Inside Global'' of (ip1, port1, err1) \<Rightarrow>
        let nat1 = nat'\<lparr>InsideGlobal := ip1, InsideGlobalPort := port1\<rparr> in
        if err1 \<noteq> None then Return (nat1, err1) else
        go_bind (go_index ips 3) (\<lambda>f2.
        case parseIpPort L f2 ''Inside Local'' of (ip2, port2, err2) \<Rightarrow>
        let nat2 = nat1\<lparr>InsideLocal := ip2, InsideLocalPort := port2\<rparr> in
        if err2 \<noteq> None then Return (nat2, err2) else
        go_bind (go_index ips 4) (\<lambda>f3.
        case parseIpPort L f3 ''Outside Local'' of (ip3, port3, err3) \<Rightarrow>
        let nat3 = nat2\<lparr>OutsideLocal := ip3, OutsideLocalPort := port3\<rparr> in
        if err3 \<noteq> None then Return (nat3, err3) else
        go_bind (go_index ips 5) (\<lambda>f4.
        case parseIpPort L f4 ''Outside Global'' of (ip4, port4, err4) \<Rightarrow>
        let nat4 = nat3\<lparr>OutsideGlobal := ip4, OutsideGlobalPort := port4\<rparr> in
        Return (nat4, err4))))))"

text \<open>Lines 168-183: the timing line.\<close>

definition Parse_times :: "stdlib \<Rightarrow> NAT \<Rightarrow> string list \<Rightarrow> (NAT \<times> error) go" where
  "Parse_times L nat' lines =
     go_bind (go_index lines 1) (\<lambda>line1.
     let times = FindSubmatch TIME_REGEXP line1 in
     go_bind (go_index times 1) (\<lambda>t1.
     case time_Parse L DATE_FORMAT t1 of (created, err1) \<Rightarrow>
     let nat1 = nat'\<lparr>Created := created\<rparr> in
     if err1 \<noteq> None then Return (nat1, err1) else
     go_bind (go_index times 2) (\<lambda>t2.
     case time_Parse L DATE_FORMAT t2 of (used, err2) \<Rightarrow>
     let nat2 = nat1\<lparr>Used := used\<rparr> in
     if err2 \<noteq> None then Return (nat2, err2) else
     go_bind (go_index times 3) (\<lambda>t3.
     let timeout = ReplaceAll DURATION_REGEXP t3 DURATION_REPLACE in
     case ParseDuration L timeout of (d, err3) \<Rightarrow>
     Return (nat2\<lparr>Timeout := d\<rparr>, err3)))))"

definition Parse :: "stdlib \<Rightarrow> NAT \<Rightarrow> string \<Rightarrow> (NAT \<times> error) go" where
  "Parse L nat' data =
     (let lines = SplitN data ''\<newline>'' 3 in
      go_bind (go_index lines 0) (\<lambda>line0.
      let ips = FindSubmatch ROUTE_REGEXP line0 in
      go_bind (go_index ips 1) (\<lambda>ips1.
      go_bind (go_index ips1 0) (\<lambda>c.
      let nat1 = nat'\<lparr>Proto := go_map_get (map_of NAT_TRANSLATION) 0 c\<rparr> in
      go_bind (Parse_addresses L nat1 ips) (\<lambda>(nat2, err).
      if err \<noteq> None then Return (nat2, err)
      else Parse_times L nat2 lines)))))"

section \<open>Aggregation\<close>

definition Where :: "NAT list \<Rightarrow> (NAT \<Rightarrow> bool) \<Rightarrow> NAT list" where
  "Where nats fn = filter fn nats"

text \<open>
  Go's \<open>/\<close> on signed integers truncates towards zero and panics on a zero divisor.
\<close>

definition go_div :: "int \<Rightarrow> int \<Rightarrow> int go" where
  "go_div a b =
     (if b = 0 then Panic ''runtime error: integer divide by zero''
      else Return (int64 (sgn a * sgn b * (\<bar>a\<bar> div \<bar>b\<bar>))))"

definition Hour :: Duration where
  "Hour = 3600 * 1000000000"

record summary =
  average_udp_timeout :: Duration
  average_tcp_timeout :: Duration
  udp_count :: int
  udp_long_count :: int
  udp_long_percent :: int
  tcp_count :: int
  tcp_long_count :: int
  tcp_long_percent :: int
  icmp_count :: int
  icmp_long_count :: int
  icmp_long_percent :: int

definition len :: "'a list \<Rightarrow> int" where
  "len xs = int (length xs)"

definition sum_timeout :: "NAT list \<Rightarrow> Duration" where
  "sum_timeout nats = fold (\<lambda>nat' s. int64 (s + Timeout nat')) nats 0"

text \<open>Lines 220-258 of \<open>main\<close>: the counts, averages and percentages that are printed.\<close>

definition report :: "NAT list \<Rightarrow> summary go" where
  "report nats =
     (let long_time = 1 * Hour;
          long_time_left = (\<lambda>nat'. Timeout nat' > long_time);
          nat_type = (\<lambda>t nat'. Proto nat' = t);
          udp_nats = Where nats (nat_type UDP_NAT);
          tcp_nats = Where nats (nat_type TCP_NAT);
          icmp_nats = Where nats (nat_type ICMP_NAT);
          long_udp_nats = Where udp_nats long_time_left;
          long_tcp_nats = Where tcp_nats long_time_left;
          long_icmp_nats = Where icmp_nats long_time_left;
          sum_udp_timeout = sum_timeout udp_nats;
          sum_tcp_timeout = sum_timeout tcp_nats
      in
      go_bind (go_div sum_udp_timeout (len udp_nats)) (\<lambda>avg_udp.
      go_bind (go_div sum_tcp_timeout (len tcp_nats)) (\<lambda>avg_tcp.
      go_bind (go_div (int64 (len long_udp_nats * 100)) (len udp_nats)) (\<lambda>pct_udp.
      go_bind (go_div (int64 (len long_tcp_nats * 100)) (len tcp_nats)) (\<lambda>pct_tcp.
      go_bind (go_div (int64 (len long_icmp_nats * 100)) (len icmp_nats)) (\<lambda>pct_icmp.
        Return \<lparr>average_udp_timeout = avg_udp,
                 average_tcp_timeout = avg_tcp,
                 udp_count = len udp_nats,
                 udp_long_count = len long_udp_nats,
                 udp_long_percent = pct_udp,
                 tcp_count = len tcp_nats,
                 tcp_long_count = len long_tcp_nats,
                 tcp_long_percent = pct_tcp,
                 icmp_count = len icmp_nats,
                 icmp_long_count = len long_icmp_nats,
                 icmp_long_percent = pct_icmp\<rparr>))))))"

datatype 'a outcome = Finished 'a | Fatal string | Crashed string

function read_nats :: "stdlib \<Rightarrow> scanner \<Rightarrow> NAT list \<Rightarrow> (NAT list) outcome" where
  "read_nats L s nats =
     (case Scan s of
        ScanPanic p \<Rightarrow> Crashed p
      | Stop e \<Rightarrow> Finished nats
      | Token t s' \<Rightarrow>
          (case Parse L new_NAT t of
             Panic p \<Rightarrow> Crashed p
           | Return (nat', Some e) \<Rightarrow> Fatal e
           | Return (nat', None) \<Rightarrow> read_nats L s' (nats @ [nat'])))"
  by pat_completeness auto
termination
proof (relation "measure (\<lambda>(L, s, nats). remaining s)")
  show "wf (measure (\<lambda>(L, s, nats). remaining s))" by simp
next
  fix L :: stdlib and s t s' and nats :: "NAT list"
  assume "Scan s = Token t s'"
  then show "((L, s', nats @ [nat']), (L, s, nats)) \<in> measure (\<lambda>(L, s, nats). remaining s)" for nat'
    by (simp add: Scan_Token_remaining)
qed

declare read_nats.simps [simp del]

definition main :: "stdlib \<Rightarrow> string list \<Rightarrow> summary outcome" where
  "main L stdin =
     (case read_nats L (new_Scanner stdin) [] of
        Crashed p \<Rightarrow> Crashed p
      | Fatal e \<Rightarrow> Fatal e
      | Finished nats \<Rightarrow>
          (case report nats of Panic p \<Rightarrow> Crashed p | Return r \<Rightarrow> Finished r))"

section \<open>An instance of the library parameters\<close>

text \<open>
  To run the model on concrete inputs the library parameters need values. This instance
  covers the plain cases only: dotted-decimal IPv4 literals, timestamps of exactly the
  shape \<open>MM/DD/YY hh:mm:ss\<close>, quoting of printable ASCII, exact arithmetic in place of
  the floating-point product, and JSON string literals without escapes.
\<close>

fun split_on :: "char \<Rightarrow> string \<Rightarrow> string list" where
  "split_on c [] = [[]]"
| "split_on c (x # xs) =
     (if x = c then [] # split_on c xs
      else case split_on c xs of [] \<Rightarrow> [[x]] | w # ws \<Rightarrow> (x # w) # ws)"

definition decimal :: "string \<Rightarrow> int" where
  "decimal s = foldl (\<lambda>n c. n * 10 + digit_val c) 0 s"

definition octet :: "string \<Rightarrow> nat option" where
  "octet s =
     (if s \<noteq> [] \<and> length s \<le> 3 \<and> list_all digit_class s
         \<and> (length s = 1 \<or> hd s \<noteq> CHR ''0'') \<and> decimal s \<le> 255
      then Some (nat (decimal s)) else None)"

definition sample_ParseIP :: "string \<Rightarrow> IP" where
  "sample_ParseIP s =
     (case map octet (split_on (CHR ''.'') s) of
        [Some a, Some b, Some c, Some d] \<Rightarrow>
          [0, 0, 0, 0, 0, 0, 0, 0, 0, 0, 255, 255, a, b, c, d]
      | _ \<Rightarrow> [])"

definition days_in :: "int \<Rightarrow> int \<Rightarrow> int" where
  "days_in m y =
     (if m = 2 then (if y mod 4 = 0 \<and> (y mod 100 \<noteq> 0 \<or> y mod 400 = 0) then 29 else 28)
      else if m \<in> {4, 6, 9, 11} then 30 else 31)"

definition sample_time_Parse :: "string \<Rightarrow> string \<Rightarrow> Time \<times> error" where
  "sample_time_Parse layout v =
     (let bad = (zero_Time, Some (''parsing time '' @ quote v @ '' as '' @ quote layout)) in
      if layout \<noteq> DATE_FORMAT then bad
      else
        (case split_on (CHR '' '') v of
           [d, t] \<Rightarrow>
             (case (split_on (CHR ''/'') d, split_on (CHR '':'') t) of
                ([mo, da, yr], [h, mi, se]) \<Rightarrow>
                  if list_all (\<lambda>w. length w = 2 \<and> list_all digit_class w) [mo, da, yr, h, mi, se]
                  then
                    (let y = (if decimal yr \<ge> 69 then 1900 + decimal yr else 2000 + decimal yr) in
                     if 1 \<le> decimal mo \<and> decimal mo \<le> 12 \<and> 1 \<le> decimal da
                        \<and> decimal da \<le> days_in (decimal mo) y
                        \<and> decimal h < 24 \<and> decimal mi < 60 \<and> decimal se < 60
                     then (\<lparr>year = y, month = decimal mo, day = decimal da,
                             hour = decimal h, minute = decimal mi, second = decimal se,
                             nanosecond = 0\<rparr>, None)
                     else bad)
                  else bad
              | _ \<Rightarrow> bad)
         | _ \<Rightarrow> bad))"

definition json_plain :: "char \<Rightarrow> bool" where
  "json_plain c = (32 \<le> (of_char c :: nat) \<and> (of_char c :: nat) < 127
                   \<and> c \<noteq> CHR 0x22 \<and> c \<noteq> CHR 0x5C)"

definition sample_json_Marshal :: "string \<Rightarrow> string \<times> error" where
  "sample_json_Marshal s = ([CHR 0x22] @ s @ [CHR 0x22], None)"

definition sample_json_Unmarshal :: "string \<Rightarrow> string \<Rightarrow> string \<times> error" where
  "sample_json_Unmarshal data dest =
     (if 2 \<le> length data \<and> hd data = CHR 0x22 \<and> last data = CHR 0x22
         \<and> list_all json_plain (butlast (tl data))
      then (butlast (tl data), None)
      else (dest, Some ''json: cannot unmarshal into Go value of type string''))"

definition sample_stdlib :: stdlib where
  "sample_stdlib =
     \<lparr>net_ParseIP = sample_ParseIP,
      time_Parse = sample_time_Parse,
      strconv_Quote = quote,
      float_frac = (\<lambda>f k unit. f * unit div 10 ^ k),
      json_Marshal = sample_json_Marshal,
      json_Unmarshal = sample_json_Unmarshal\<rparr>"

section \<open>Properties of the tokenizer\<close>

subsection \<open>A header line in front of the last block\<close>

text \<open>
  Claim C1. The tokenizer is to strip a leading header line from every block, also from
  the block closed at end-of-input. The source strips the header only on the path that
  found a blank-line separator: the end-of-input path returns before the header check.
  On a stream made of the header line and one record, ended by a newline, the single
  token therefore still begins with the header line.
\<close>

theorem Scan_tokens_header_kept_at_eof:
  "Scan_tokens (new_Scanner
     [''Pro Inside global      Inside local       Outside local      Outside global\<newline>udp 10.0.0.1:1234 192.168.0.1:1234 203.0.113.1:80 203.0.113.1:80\<newline>  create: 01/02/23 10:00:00, use: 01/02/23 10:05:00, timeout: 01:30:00\<newline>''])
   = Return
      ([''Pro Inside global      Inside local       Outside local      Outside global\<newline>udp 10.0.0.1:1234 192.168.0.1:1234 203.0.113.1:80 203.0.113.1:80\<newline>  create: 01/02/23 10:00:00, use: 01/02/23 10:05:00, timeout: 01:30:00''],
       None)"
  by code_simp

subsection \<open>End of input without a terminating newline\<close>


text \<open>
  Claim C6. When end-of-input is reached, the remaining data is non-empty, holds no
  blank-line separator and does not end in a newline, the split function returns the
  error that the input must end with an empty line, with no token and nothing consumed.
\<close>

theorem routeSplitFunc_malformed_stream:
  assumes "data \<noteq> []"
    and "bytes_Index data ROUTE_SEP = -1"
    and "\<not> HasSuffix data ''\<newline>''"
  shows "routeSplitFunc data True =
           Return (0, None, Some ''Improperly formatted file: it must end with an empty line'')"
  using assms by (simp add: routeSplitFunc_def)

theorem routeSplitFunc_malformed_stream_witness:
  "''udp 1.1.1.1:1'' \<noteq> [] \<and> bytes_Index ''udp 1.1.1.1:1'' ROUTE_SEP = -1
   \<and> \<not> HasSuffix ''udp 1.1.1.1:1'' ''\<newline>''
   \<and> routeSplitFunc ''udp 1.1.1.1:1'' True =
        Return (0, None, Some ''Improperly formatted file: it must end with an empty line'')"
proof -
  have a: "''udp 1.1.1.1:1'' \<noteq> []" by simp
  have b: "bytes_Index ''udp 1.1.1.1:1'' ROUTE_SEP = -1"
    by (simp add: ROUTE_SEP_def)
  have c: "\<not> HasSuffix ''udp 1.1.1.1:1'' ''\<newline>''"
    by (simp add: HasSuffix_def suffix_def)
  from routeSplitFunc_malformed_stream [OF a b c] a b c show ?thesis by simp
qed

section \<open>Properties of the protocol enumeration\<close>

lemma reverse_entry_pair: "reverse_entry (k, v) m = m(v \<mapsto> k)"
  by (simp add: reverse_entry_def)

lemma reverse_fold_miss:
  "v \<notin> snd ` set es \<Longrightarrow> fold reverse_entry es m v = m v"
  by (induction es arbitrary: m) (auto simp: reverse_entry_pair)

lemma reverse_fold_hit:
  "inj_on snd (set es) \<Longrightarrow> (k, v) \<in> set es \<Longrightarrow> fold reverse_entry es m v = Some k"
proof (induction es arbitrary: m)
  case Nil
  then show ?case by simp
next
  case (Cons e es)
  have inj: "inj_on snd (set es)"
    using Cons.prems(1) by (auto simp: inj_on_def)
  show ?case
  proof (cases "v \<in> snd ` set es")
    case True
    then obtain k' where k': "(k', v) \<in> set es" by force
    with Cons.prems(2) have "k' = k"
      using inj_onD [OF Cons.prems(1), of "(k', v)" "(k, v)"] by simp
    with k' Cons.IH [OF inj] show ?thesis by simp
  next
    case False
    with Cons.prems(2) have e: "e = (k, v)" by force
    from False have "fold reverse_entry es (reverse_entry e m) v = reverse_entry e m v"
      by (rule reverse_fold_miss)
    with e show ?thesis by (simp add: reverse_entry_pair)
  qed
qed

lemma NAT_NAMES_inj: "inj_on snd (set NAT_NAMES)"
  by (simp add: NAT_NAMES_def UDP_NAT_def TCP_NAT_def STATIC_NAT_def ICMP_NAT_def)

lemma reverseNATNames_any_order:
  assumes "set names = set NAT_NAMES"
  shows "reverseNATNames names = NAT_REVERSE_NAMES"
proof
  fix v
  show "reverseNATNames names v = NAT_REVERSE_NAMES v"
  proof (cases "v \<in> snd ` set NAT_NAMES")
    case False
    with assms show ?thesis
      by (simp add: reverseNATNames_def NAT_REVERSE_NAMES_def reverse_fold_miss)
  next
    case True
    then obtain k where k: "(k, v) \<in> set NAT_NAMES" by force
    from NAT_NAMES_inj assms have "inj_on snd (set names)" by simp
    with k assms NAT_NAMES_inj show ?thesis
      by (simp add: reverseNATNames_def NAT_REVERSE_NAMES_def reverse_fold_hit)
  qed
qed

lemma NAT_REVERSE_NAMES_name:
  "p \<in> {UDP_NAT, TCP_NAT, STATIC_NAT, ICMP_NAT} \<Longrightarrow>
   NAT_REVERSE_NAMES (go_map_get (map_of NAT_NAMES) [] p) = Some p"
  by (auto simp: NAT_REVERSE_NAMES_def reverseNATNames_def reverse_entry_pair NAT_NAMES_def
      go_map_get_def UDP_NAT_def TCP_NAT_def STATIC_NAT_def ICMP_NAT_def)

lemma NAT_REVERSE_NAMES_unknown:
  "dest \<notin> {''udp'', ''tcp'', ''static'', ''icmp''} \<Longrightarrow> NAT_REVERSE_NAMES dest = None"
  by (auto simp: NAT_REVERSE_NAMES_def reverseNATNames_def reverse_entry_pair NAT_NAMES_def)

text \<open>
  Claim C7. For each of the four variants, the reverse name table maps the variant's
  canonical name back to the variant, whatever the order in which the loop of
  \<open>reverseNATNames\<close> visits the entries of the forward table; and when the JSON codec
  returns the name it was given, unmarshalling the marshalled variant yields the variant
  with no error.
\<close>

theorem protocol_name_roundtrip:
  assumes "p \<in> {UDP_NAT, TCP_NAT, STATIC_NAT, ICMP_NAT}"
    and "set names = set NAT_NAMES"
    and "json_Unmarshal L (fst (json_Marshal L (go_map_get (map_of NAT_NAMES) [] p))) []
           = (go_map_get (map_of NAT_NAMES) [] p, None)"
  shows "go_map_get (reverseNATNames names) 0 (go_map_get (map_of NAT_NAMES) [] p) = p
         \<and> UnmarshalJSON L (fst (MarshalJSON L p)) = (p, None)"
  using assms(3) NAT_REVERSE_NAMES_name [OF assms(1)] reverseNATNames_any_order [OF assms(2)]
  by (simp add: UnmarshalJSON_def MarshalJSON_def go_map_get_def)

theorem protocol_name_roundtrip_witness:
  "STATIC_NAT \<in> {UDP_NAT, TCP_NAT, STATIC_NAT, ICMP_NAT}
   \<and> set (rev NAT_NAMES) = set NAT_NAMES
   \<and> json_Unmarshal sample_stdlib
        (fst (json_Marshal sample_stdlib (go_map_get (map_of NAT_NAMES) [] STATIC_NAT))) []
        = (go_map_get (map_of NAT_NAMES) [] STATIC_NAT, None)
   \<and> go_map_get (map_of NAT_NAMES) [] STATIC_NAT = ''static''
   \<and> go_map_get (reverseNATNames (rev NAT_NAMES)) 0 ''static'' = STATIC_NAT
   \<and> fst (MarshalJSON sample_stdlib STATIC_NAT) = [CHR 0x22] @ ''static'' @ [CHR 0x22]
   \<and> UnmarshalJSON sample_stdlib ([CHR 0x22] @ ''static'' @ [CHR 0x22]) = (STATIC_NAT, None)"
proof -
  have a: "STATIC_NAT \<in> {UDP_NAT, TCP_NAT, STATIC_NAT, ICMP_NAT}" by simp
  have b: "set (rev NAT_NAMES) = set NAT_NAMES" by simp
  have n: "go_map_get (map_of NAT_NAMES) [] STATIC_NAT = ''static''"
    by (simp add: go_map_get_def NAT_NAMES_def UDP_NAT_def TCP_NAT_def STATIC_NAT_def)
  have c: "json_Unmarshal sample_stdlib
        (fst (json_Marshal sample_stdlib (go_map_get (map_of NAT_NAMES) [] STATIC_NAT))) []
        = (go_map_get (map_of NAT_NAMES) [] STATIC_NAT, None)"
    by (simp add: n sample_stdlib_def sample_json_Marshal_def sample_json_Unmarshal_def
        json_plain_def)
  have m: "fst (MarshalJSON sample_stdlib STATIC_NAT) = [CHR 0x22] @ ''static'' @ [CHR 0x22]"
    by (simp add: MarshalJSON_def n sample_stdlib_def sample_json_Marshal_def)
  from protocol_name_roundtrip [OF a b c] a b c n m show ?thesis by simp
qed

text \<open>
  Claim C4, as stated: unmarshalling a name that is none of the four canonical names
  fails. In the source the reverse table is read without a presence check, so an unknown
  name yields the zero value, which is the udp variant, and the only error returned is
  the JSON decoder's.
\<close>

theorem UnmarshalJSON_unknown_counterexample:
  "''bogus'' \<notin> {''udp'', ''tcp'', ''static'', ''icmp''}
   \<and> UnmarshalJSON sample_stdlib ([CHR 0x22] @ ''bogus'' @ [CHR 0x22]) = (UDP_NAT, None)"
  by (simp add: UnmarshalJSON_def sample_stdlib_def sample_json_Unmarshal_def json_plain_def
      NAT_REVERSE_NAMES_unknown go_map_get_def UDP_NAT_def)

text \<open>
  Claim C4, amended. When the decoded string is none of the four canonical names, the
  stored variant is the zero value \<open>UDP_NAT\<close> and the error returned is exactly the
  JSON decoder's error: none when the data is a well-formed JSON string.
\<close>

theorem UnmarshalJSON_unknown_defaults:
  assumes "json_Unmarshal L data [] = (dest, err)"
    and "dest \<notin> {''udp'', ''tcp'', ''static'', ''icmp''}"
  shows "UnmarshalJSON L data = (UDP_NAT, err)"
  using assms(1) NAT_REVERSE_NAMES_unknown [OF assms(2)]
  by (simp add: UnmarshalJSON_def go_map_get_def UDP_NAT_def)

theorem UnmarshalJSON_unknown_defaults_witness:
  "json_Unmarshal sample_stdlib ([CHR 0x22] @ ''bogus'' @ [CHR 0x22]) [] = (''bogus'', None)
   \<and> ''bogus'' \<notin> {''udp'', ''tcp'', ''static'', ''icmp''}
   \<and> UnmarshalJSON sample_stdlib ([CHR 0x22] @ ''bogus'' @ [CHR 0x22]) = (UDP_NAT, None)"
proof -
  have a: "json_Unmarshal sample_stdlib ([CHR 0x22] @ ''bogus'' @ [CHR 0x22]) []
             = (''bogus'', None)"
    by (simp add: sample_stdlib_def sample_json_Unmarshal_def json_plain_def)
  have b: "''bogus'' \<notin> {''udp'', ''tcp'', ''static'', ''icmp''}" by simp
  from UnmarshalJSON_unknown_defaults [OF a b] a b show ?thesis by simp
qed

section \<open>Properties of the aggregation\<close>

lemma report_empty_partition:
  assumes "Where nats (\<lambda>nat'. Proto nat' = UDP_NAT) = []
           \<or> Where nats (\<lambda>nat'. Proto nat' = TCP_NAT) = []
           \<or> Where nats (\<lambda>nat'. Proto nat' = ICMP_NAT) = []"
  shows "report nats = Panic ''runtime error: integer divide by zero''"
  using assms
  by (auto simp: report_def Let_def go_bind_def go_div_def len_def split: go.splits)

text \<open>
  Claim C2. A partition with no record is to be reported as "not applicable", never
  divided by. The source divides by the length of each partition with no guard: on an
  input with one udp record, one tcp record and no icmp record, the percentage for icmp
  divides by zero and the run ends in a panic.
\<close>

theorem main_empty_icmp_partition_panics:
  "main sample_stdlib
     [''udp 10.0.0.1:1234 192.168.0.1:1234 203.0.113.1:80 203.0.113.1:80\<newline>  create: 01/02/23 10:00:00, use: 01/02/23 10:05:00, timeout: 01:30:00\<newline>\<newline>tcp 10.0.0.1:1234 192.168.0.1:1234 203.0.113.1:80 203.0.113.1:80\<newline>  create: 01/02/23 10:00:00, use: 01/02/23 10:05:00, timeout: 00:30:00\<newline>'']
   = Crashed ''runtime error: integer divide by zero''"
  by code_simp

section \<open>Properties of the record parser\<close>

lemma SplitN_3_not_Nil: "SplitN s sep 3 \<noteq> []"
  by (simp add: numeral_3_eq_3 Let_def)

lemma go_index_hd: "xs \<noteq> [] \<Longrightarrow> go_index xs 0 = Return (hd xs)"
  by (cases xs) (simp_all add: go_index_def)

lemma Parse_route_mismatch:
  assumes "FindSubmatch ROUTE_REGEXP (hd (SplitN data ''\<newline>'' 3)) = []"
  shows "Parse L nat' data = Panic ''runtime error: index out of range''"
proof -
  have "go_index (SplitN data ''\<newline>'' 3) 0 = Return (hd (SplitN data ''\<newline>'' 3))"
    by (rule go_index_hd) (rule SplitN_3_not_Nil)
  with assms show ?thesis
    by (simp add: Parse_def Let_def go_bind_def go_index_def)
qed

text \<open>
  Claim C3. A block whose first line does not match the address pattern, or whose second
  line does not match the timing pattern, is to make the parser return an error. The
  source indexes the result of \<open>FindSubmatch\<close> without checking for \<open>nil\<close>: on a block
  that is only a header line, and on a block whose timing line is not in the expected
  form, parsing panics with an index out of range instead of returning an error.
\<close>

theorem Parse_malformed_block_panics:
  "Parse sample_stdlib new_NAT
     ''Pro Inside global      Inside local       Outside local      Outside global''
     = Panic ''runtime error: index out of range''
   \<and> Parse sample_stdlib new_NAT
     ''udp 10.0.0.1:1234 192.168.0.1:1234 203.0.113.1:80 203.0.113.1:80\<newline>  created 01/02/23 10:00:00''
     = Panic ''runtime error: index out of range''"
  by code_simp

lemma parseIpPort_ok:
  "SplitHostPort f = (h, q, None) \<Longrightarrow> ParseInt q = (n, None) \<Longrightarrow>
   parseIpPort L f name = (net_ParseIP L h, n, None)"
  by (simp add: parseIpPort_def Atoi_def)

lemma parseIpPort_address_error:
  "SplitHostPort f = (h, q, Some e) \<Longrightarrow>
   parseIpPort L f name = ([], 0, Some (''Could not parse '' @ name @ '' address: '' @ e))"
  by (simp add: parseIpPort_def)

lemma parseIpPort_port_error:
  "SplitHostPort f = (h, q, None) \<Longrightarrow> ParseInt q = (n, Some e) \<Longrightarrow>
   parseIpPort L f name =
     (net_ParseIP L h, 0, Some (''Could not parse '' @ name @ '' port: '' @ NumError L q e))"
  by (simp add: parseIpPort_def Atoi_def)

lemma Parse_route_match:
  assumes "FindSubmatch ROUTE_REGEXP (hd (SplitN data ''\<newline>'' 3)) = [w, p, f1, f2, f3, f4]"
    and "p \<noteq> []"
  shows "Parse L nat' data =
           go_bind (Parse_addresses L
                      (nat'\<lparr>Proto := go_map_get (map_of NAT_TRANSLATION) 0 (hd p)\<rparr>)
                      [w, p, f1, f2, f3, f4])
             (\<lambda>(nat2, err). if err \<noteq> None then Return (nat2, err)
                             else Parse_times L nat2 (SplitN data ''\<newline>'' 3))"
proof -
  have "go_index (SplitN data ''\<newline>'' 3) 0 = Return (hd (SplitN data ''\<newline>'' 3))"
    by (rule go_index_hd) (rule SplitN_3_not_Nil)
  moreover from assms(2) have "go_index p 0 = Return (hd p)" by (rule go_index_hd)
  ultimately show ?thesis using assms(1)
    by (simp add: Parse_def Let_def go_bind_def go_index_def)
qed

lemma proto_code:
  "p \<in> {''---'', ''tcp'', ''udp'', ''icmp''} \<Longrightarrow>
   go_map_get (map_of NAT_TRANSLATION) 0 (hd p) = STATIC_NAT \<longleftrightarrow> p = ''---''"
  by (auto simp: go_map_get_def NAT_TRANSLATION_def UDP_NAT_def TCP_NAT_def STATIC_NAT_def
      ICMP_NAT_def)

lemma Parse_addresses_first_failure:
  assumes "Proto nat' \<noteq> STATIC_NAT"
    and "i < 4"
    and "\<forall>j<i. snd (snd (parseIpPort L ([f1, f2, f3, f4] ! j) ([''Inside Global'', ''Inside Local'', ''Outside Local'', ''Outside Global''] ! j))) = None"
    and "snd (snd (parseIpPort L ([f1, f2, f3, f4] ! i) ([''Inside Global'', ''Inside Local'', ''Outside Local'', ''Outside Global''] ! i))) = Some e"
  shows "\<exists>r. Parse_addresses L nat' [w, p, f1, f2, f3, f4] = Return (r, Some e)"
proof -
  have a0: "0 < i \<Longrightarrow> snd (snd (parseIpPort L f1 ''Inside Global'')) = None"
    using assms(3) [rule_format, of 0] by simp
  have a1: "1 < i \<Longrightarrow> snd (snd (parseIpPort L f2 ''Inside Local'')) = None"
    using assms(3) [rule_format, of 1] by simp
  have a2: "2 < i \<Longrightarrow> snd (snd (parseIpPort L f3 ''Outside Local'')) = None"
    using assms(3) [rule_format, of 2] by simp
  from assms(2) consider "i = 0" | "i = 1" | "i = 2" | "i = 3" by linarith
  then show ?thesis
  proof cases
    case 1
    with assms(1,4) show ?thesis
      by (auto simp: Parse_addresses_def go_bind_def go_index_def Let_def
          split: prod.splits)
  next
    case 2
    with assms(1,4) a0 show ?thesis
      by (auto simp: Parse_addresses_def go_bind_def go_index_def Let_def
          split: prod.splits)
  next
    case 3
    with assms(1,4) a0 a1 show ?thesis
      by (auto simp: Parse_addresses_def go_bind_def go_index_def Let_def
          split: prod.splits)
  next
    case 4
    with assms(1,4) a0 a1 a2 show ?thesis
      by (auto simp: Parse_addresses_def go_bind_def go_index_def Let_def
          split: prod.splits)
  qed
qed

lemma digit_val_range: "digit_class c \<Longrightarrow> 0 \<le> digit_val c \<and> digit_val c \<le> 9"
  by (auto simp: digit_class_def digit_val_def)

lemma digit_not_unit: "digit_class c \<Longrightarrow> \<not> unit_char c"
  by (simp add: unit_char_def)

lemma hms_chars:
  "\<not> digit_class (CHR ''h'')" "\<not> digit_class (CHR ''m'')" "\<not> digit_class (CHR ''s'')"
  "unit_char (CHR ''h'')" "unit_char (CHR ''m'')" "unit_char (CHR ''s'')"
  "\<not> digit_class (CHR '':'')"
  by (simp_all add: digit_class_def unit_char_def)

lemma digit_not_special:
  "digit_class c \<Longrightarrow> c \<noteq> CHR ''.'' \<and> c \<noteq> CHR '':'' \<and> c \<noteq> CHR ''-'' \<and> c \<noteq> CHR ''+''"
  by (auto simp: digit_class_def)

lemma leadingInt_two_digits:
  assumes "digit_class a" "digit_class b" "\<not> digit_class u"
  shows "leadingInt 0 (a # b # u # rest) = Some (digit_val a * 10 + digit_val b, u # rest)"
  using assms digit_val_range [of a] digit_val_range [of b] by simp

lemma duration_term_two_digits:
  assumes "digit_class a" "digit_class b"
    and "(un, U) \<in> {(CHR ''h'', 3600 * 1000000000), (CHR ''m'', 60 * 1000000000), (CHR ''s'', 1000000000)}"
    and "rest = [] \<or> digit_class (hd rest)"
  shows "duration_term L orig (a # b # un # rest)
           = Inr ((digit_val a * 10 + digit_val b) * U, rest)"
proof -
  from assms(3) have un: "\<not> digit_class un" "unit_char un" "un \<noteq> CHR ''.''"
    and U: "map_of unitMap [un] = Some U" "0 < U" "U \<le> 3600 * 1000000000"
    by (auto simp: hms_chars unitMap_def)
  have li: "leadingInt 0 (a # b # un # rest) = Some (digit_val a * 10 + digit_val b, un # rest)"
    using assms(1,2) un(1) by (rule leadingInt_two_digits)
  have tw: "takeWhile unit_char (un # rest) = [un]" "dropWhile unit_char (un # rest) = rest"
    using assms(4) un(2) by (cases rest; simp add: digit_not_unit)+
  have v: "0 \<le> digit_val a * 10 + digit_val b" "digit_val a * 10 + digit_val b \<le> 99"
    using digit_val_range [OF assms(1)] digit_val_range [OF assms(2)] by simp_all
  have "2 ^ 63 div (3600 * 1000000000 :: int) \<le> 2 ^ 63 div U"
    using U(2,3) by (intro zdiv_mono2) simp_all
  then have nov: "\<not> digit_val a * 10 + digit_val b > 2 ^ 63 div U"
    using v by simp
  show ?thesis
    using assms(1) li tw U(1) nov un(3)
    by (simp add: duration_term_def Let_def)
qed

lemma duration_terms_step:
  "s \<noteq> [] \<Longrightarrow> duration_term L orig s = Inr (v, s') \<Longrightarrow> d + v \<le> 2 ^ 63 \<Longrightarrow>
   duration_terms L orig d s = duration_terms L orig (d + v) s'"
  by (subst duration_terms.simps) simp

lemma duration_terms_Nil: "duration_terms L orig d [] = Inr d"
  by (subst duration_terms.simps) simp

lemma ParseDuration_hms:
  assumes "digit_class a" "digit_class b" "digit_class c" "digit_class d"
    "digit_class e" "digit_class f"
  shows "ParseDuration L [a, b, CHR ''h'', c, d, CHR ''m'', e, f, CHR ''s'']
         = (((digit_val a * 10 + digit_val b) * 3600 + (digit_val c * 10 + digit_val d) * 60
              + (digit_val e * 10 + digit_val f)) * 1000000000, None)"
proof -
  let ?orig = "[a, b, CHR ''h'', c, d, CHR ''m'', e, f, CHR ''s'']"
  let ?H = "digit_val a * 10 + digit_val b"
  let ?M = "digit_val c * 10 + digit_val d"
  let ?S = "digit_val e * 10 + digit_val f"
  have r: "0 \<le> ?H" "?H \<le> 99" "0 \<le> ?M" "?M \<le> 99" "0 \<le> ?S" "?S \<le> 99"
    using assms [THEN digit_val_range] by simp_all
  have t1: "duration_term L ?orig ?orig = Inr (?H * (3600 * 1000000000), [c, d, CHR ''m'', e, f, CHR ''s''])"
    by (rule duration_term_two_digits) (use assms in simp_all)
  have t2: "duration_term L ?orig [c, d, CHR ''m'', e, f, CHR ''s''] = Inr (?M * (60 * 1000000000), [e, f, CHR ''s''])"
    by (rule duration_term_two_digits) (use assms in simp_all)
  have t3: "duration_term L ?orig [e, f, CHR ''s''] = Inr (?S * 1000000000, [])"
    by (rule duration_term_two_digits) (use assms in simp_all)
  have "duration_terms L ?orig 0 ?orig
          = duration_terms L ?orig (0 + ?H * (3600 * 1000000000)) [c, d, CHR ''m'', e, f, CHR ''s'']"
    by (rule duration_terms_step) (use t1 r in simp_all)
  also have "\<dots> = duration_terms L ?orig (0 + ?H * (3600 * 1000000000) + ?M * (60 * 1000000000))
                       [e, f, CHR ''s'']"
    by (rule duration_terms_step) (use t2 r in simp_all)
  also have "\<dots> = duration_terms L ?orig
                       (0 + ?H * (3600 * 1000000000) + ?M * (60 * 1000000000) + ?S * 1000000000) []"
    by (rule duration_terms_step) (use t3 r in simp_all)
  finally have "duration_terms L ?orig 0 ?orig
          = Inr (?H * (3600 * 1000000000) + ?M * (60 * 1000000000) + ?S * 1000000000)"
    by (simp add: duration_terms_Nil)
  moreover have "a \<noteq> CHR ''-''" "a \<noteq> CHR ''+''"
    using digit_not_special [OF assms(1)] by simp_all
  ultimately show ?thesis
    using r by (simp add: ParseDuration_def Let_def algebra_simps)
qed

lemma DURATION_rewrite:
  assumes "digit_class a" "digit_class b" "digit_class c" "digit_class d"
    "digit_class e" "digit_class f"
  shows "ReplaceAll DURATION_REGEXP [a, b, CHR '':'', c, d, CHR '':'', e, f] DURATION_REPLACE
         = [a, b, CHR ''h'', c, d, CHR ''m'', e, f, CHR ''s'']"
  using assms
  by (simp add: ReplaceAll_def FindSubmatch_def DURATION_REGEXP_def DURATION_REPLACE_def
      expand_def)

lemma Parse_times_ok:
  assumes "lines = l0 # l1 # rest"
    and "FindSubmatch TIME_REGEXP l1 = [w, t1, t2, t3]"
    and "time_Parse L DATE_FORMAT t1 = (created, None)"
    and "time_Parse L DATE_FORMAT t2 = (used, None)"
    and "ParseDuration L (ReplaceAll DURATION_REGEXP t3 DURATION_REPLACE) = (d, err)"
  shows "Parse_times L nat' lines
         = Return (nat'\<lparr>Created := created, Used := used, Timeout := d\<rparr>, err)"
  using assms by (simp add: Parse_times_def go_bind_def go_index_def Let_def)

lemma Parse_addresses_static:
  assumes "Proto nat' = STATIC_NAT"
  shows "Parse_addresses L nat' [w, p, f1, f2, f3, f4]
         = Return (nat'\<lparr>InsideGlobal := net_ParseIP L f1, InsideLocal := net_ParseIP L f2,
                          OutsideLocal := net_ParseIP L f3, OutsideGlobal := net_ParseIP L f4\<rparr>,
                   None)"
  using assms by (simp add: Parse_addresses_def go_bind_def go_index_def)

lemma Parse_addresses_ports:
  assumes "Proto nat' \<noteq> STATIC_NAT"
    and "parseIpPort L f1 ''Inside Global'' = (ip1, n1, None)"
    and "parseIpPort L f2 ''Inside Local'' = (ip2, n2, None)"
    and "parseIpPort L f3 ''Outside Local'' = (ip3, n3, None)"
    and "parseIpPort L f4 ''Outside Global'' = (ip4, n4, None)"
  shows "Parse_addresses L nat' [w, p, f1, f2, f3, f4]
         = Return (nat'\<lparr>InsideGlobal := ip1, InsideGlobalPort := n1,
                          InsideLocal := ip2, InsideLocalPort := n2,
                          OutsideLocal := ip3, OutsideLocalPort := n3,
                          OutsideGlobal := ip4, OutsideGlobalPort := n4\<rparr>, None)"
  using assms by (simp add: Parse_addresses_def go_bind_def go_index_def Let_def)

lemma STATIC_code: "go_map_get (map_of NAT_TRANSLATION) 0 (CHR ''-'') = STATIC_NAT"
  by (simp add: go_map_get_def NAT_TRANSLATION_def)

text \<open>
  Claim C8. For a block whose first line matches the address pattern with protocol code
  \<open>---\<close> and whose timing line is well formed, parsing a fresh record returns no error;
  the record has the static variant, its four addresses are \<open>net.ParseIP\<close> of the four
  fields as they stand (no splitting into host and port), and its four ports are zero.
\<close>

theorem Parse_static_block:
  assumes "SplitN data ''\<newline>'' 3 = line0 # line1 # rest"
    and "FindSubmatch ROUTE_REGEXP line0 = [w, ''---'', f1, f2, f3, f4]"
    and "FindSubmatch TIME_REGEXP line1 = [w', t1, t2, t3]"
    and "time_Parse L DATE_FORMAT t1 = (created, None)"
    and "time_Parse L DATE_FORMAT t2 = (used, None)"
    and "ParseDuration L (ReplaceAll DURATION_REGEXP t3 DURATION_REPLACE) = (d, None)"
  shows "Parse L new_NAT data =
           Return (\<lparr>Proto = STATIC_NAT,
                     InsideGlobal = net_ParseIP L f1, InsideGlobalPort = 0,
                     InsideLocal = net_ParseIP L f2, InsideLocalPort = 0,
                     OutsideLocal = net_ParseIP L f3, OutsideLocalPort = 0,
                     OutsideGlobal = net_ParseIP L f4, OutsideGlobalPort = 0,
                     Created = created, Used = used, Timeout = d\<rparr>, None)"
proof -
  have m: "FindSubmatch ROUTE_REGEXP (hd (SplitN data ''\<newline>'' 3)) = [w, ''---'', f1, f2, f3, f4]"
    using assms(1,2) by simp
  have q: "''---'' \<noteq> []" by simp
  show ?thesis
    using assms(1)
    by (simp add: Parse_route_match [OF m q] Parse_addresses_static go_bind_def
        Parse_times_ok [OF _ assms(3-6)] STATIC_code new_NAT_def)
qed

theorem Parse_static_block_witness:
  "SplitN ''--- 203.0.113.5 10.0.0.5 198.51.100.7 198.51.100.7\<newline>  create: 01/02/23 10:00:00, use: 01/02/23 10:05:00, timeout: 01:30:00'' ''\<newline>'' 3
      = [''--- 203.0.113.5 10.0.0.5 198.51.100.7 198.51.100.7'',
         ''  create: 01/02/23 10:00:00, use: 01/02/23 10:05:00, timeout: 01:30:00'']
   \<and> FindSubmatch ROUTE_REGEXP ''--- 203.0.113.5 10.0.0.5 198.51.100.7 198.51.100.7''
      = [''--- 203.0.113.5 10.0.0.5 198.51.100.7 198.51.100.7'',
         ''---'', ''203.0.113.5'', ''10.0.0.5'', ''198.51.100.7'', ''198.51.100.7'']
   \<and> FindSubmatch TIME_REGEXP ''  create: 01/02/23 10:00:00, use: 01/02/23 10:05:00, timeout: 01:30:00''
      = [''  create: 01/02/23 10:00:00, use: 01/02/23 10:05:00, timeout: 01:30:00'',
         ''01/02/23 10:00:00'', ''01/02/23 10:05:00'', ''01:30:00'']
   \<and> time_Parse sample_stdlib DATE_FORMAT ''01/02/23 10:00:00''
      = (\<lparr>year = 2023, month = 1, day = 2, hour = 10, minute = 0, second = 0, nanosecond = 0\<rparr>, None)
   \<and> time_Parse sample_stdlib DATE_FORMAT ''01/02/23 10:05:00''
      = (\<lparr>year = 2023, month = 1, day = 2, hour = 10, minute = 5, second = 0, nanosecond = 0\<rparr>, None)
   \<and> ParseDuration sample_stdlib (ReplaceAll DURATION_REGEXP ''01:30:00'' DURATION_REPLACE)
      = (5400000000000, None)
   \<and> Parse sample_stdlib new_NAT
       ''--- 203.0.113.5 10.0.0.5 198.51.100.7 198.51.100.7\<newline>  create: 01/02/23 10:00:00, use: 01/02/23 10:05:00, timeout: 01:30:00''
      = Return (\<lparr>Proto = STATIC_NAT,
                  InsideGlobal = [0, 0, 0, 0, 0, 0, 0, 0, 0, 0, 255, 255, 203, 0, 113, 5],
                  InsideGlobalPort = 0,
                  InsideLocal = [0, 0, 0, 0, 0, 0, 0, 0, 0, 0, 255, 255, 10, 0, 0, 5],
                  InsideLocalPort = 0,
                  OutsideLocal = [0, 0, 0, 0, 0, 0, 0, 0, 0, 0, 255, 255, 198, 51, 100, 7],
                  OutsideLocalPort = 0,
                  OutsideGlobal = [0, 0, 0, 0, 0, 0, 0, 0, 0, 0, 255, 255, 198, 51, 100, 7],
                  OutsideGlobalPort = 0,
                  Created = \<lparr>year = 2023, month = 1, day = 2, hour = 10, minute = 0, second = 0, nanosecond = 0\<rparr>,
                  Used = \<lparr>year = 2023, month = 1, day = 2, hour = 10, minute = 5, second = 0, nanosecond = 0\<rparr>,
                  Timeout = 5400000000000\<rparr>, None)"
proof -
  have a: "SplitN ''--- 203.0.113.5 10.0.0.5 198.51.100.7 198.51.100.7\<newline>  create: 01/02/23 10:00:00, use: 01/02/23 10:05:00, timeout: 01:30:00'' ''\<newline>'' 3
      = [''--- 203.0.113.5 10.0.0.5 198.51.100.7 198.51.100.7'',
         ''  create: 01/02/23 10:00:00, use: 01/02/23 10:05:00, timeout: 01:30:00'']"
    by code_simp
  have b: "FindSubmatch ROUTE_REGEXP ''--- 203.0.113.5 10.0.0.5 198.51.100.7 198.51.100.7''
      = [''--- 203.0.113.5 10.0.0.5 198.51.100.7 198.51.100.7'',
         ''---'', ''203.0.113.5'', ''10.0.0.5'', ''198.51.100.7'', ''198.51.100.7'']"
    by code_simp
  have c: "FindSubmatch TIME_REGEXP ''  create: 01/02/23 10:00:00, use: 01/02/23 10:05:00, timeout: 01:30:00''
      = [''  create: 01/02/23 10:00:00, use: 01/02/23 10:05:00, timeout: 01:30:00'',
         ''01/02/23 10:00:00'', ''01/02/23 10:05:00'', ''01:30:00'']"
    by code_simp
  have d: "time_Parse sample_stdlib DATE_FORMAT ''01/02/23 10:00:00''
      = (\<lparr>year = 2023, month = 1, day = 2, hour = 10, minute = 0, second = 0, nanosecond = 0\<rparr>, None)"
    by code_simp
  have e: "time_Parse sample_stdlib DATE_FORMAT ''01/02/23 10:05:00''
      = (\<lparr>year = 2023, month = 1, day = 2, hour = 10, minute = 5, second = 0, nanosecond = 0\<rparr>, None)"
    by code_simp
  have f: "ParseDuration sample_stdlib (ReplaceAll DURATION_REGEXP ''01:30:00'' DURATION_REPLACE)
      = (5400000000000, None)"
    by code_simp
  have ip: "net_ParseIP sample_stdlib ''203.0.113.5'' = [0, 0, 0, 0, 0, 0, 0, 0, 0, 0, 255, 255, 203, 0, 113, 5]"
    "net_ParseIP sample_stdlib ''10.0.0.5'' = [0, 0, 0, 0, 0, 0, 0, 0, 0, 0, 255, 255, 10, 0, 0, 5]"
    "net_ParseIP sample_stdlib ''198.51.100.7'' = [0, 0, 0, 0, 0, 0, 0, 0, 0, 0, 255, 255, 198, 51, 100, 7]"
    by code_simp+
  from Parse_static_block [OF a b c d e f] a b c d e f ip show ?thesis by simp
qed

end
